theory Spec2Isabelle
  imports Main "HOL-Library.List_Lexorder" "HOL-Library.Char_ord"
begin

section \<open>JavaScript values\<close>

text \<open>
  Values that travel through \<^verbatim>\<open>config.params\<close> and \<^verbatim>\<open>config.data\<close> (both typed
  \<^verbatim>\<open>any\<close>). Numbers are restricted to integers; an object is the list of its own
  enumerable properties in insertion order.
\<close>

datatype json =
    JUndefined
  | JNull
  | JBool bool
  | JNum int
  | JStr string
  | JArr "json list"
  | JObj "(string \<times> json) list"

text \<open>JavaScript truthiness (\<^verbatim>\<open>if (v)\<close>, \<^verbatim>\<open>v && ...\<close>, \<^verbatim>\<open>v || ...\<close>).\<close>

fun truthy :: "json \<Rightarrow> bool" where
  "truthy JUndefined = False"
| "truthy JNull = False"
| "truthy (JBool b) = b"
| "truthy (JNum n) = (n \<noteq> 0)"
| "truthy (JStr s) = (s \<noteq> [])"
| "truthy (JArr xs) = True"
| "truthy (JObj kvs) = True"

text \<open>Property read \<^verbatim>\<open>obj[key]\<close>: a missing property reads as \<^verbatim>\<open>undefined\<close>.\<close>

definition prop_get :: "(string \<times> json) list \<Rightarrow> string \<Rightarrow> json" where
  "prop_get kvs k = (case map_of kvs k of Some v \<Rightarrow> v | None \<Rightarrow> JUndefined)"

text \<open>\<^verbatim>\<open>delete obj[key]\<close>.\<close>

definition prop_delete :: "string \<Rightarrow> (string \<times> json) list \<Rightarrow> (string \<times> json) list" where
  "prop_delete k kvs = filter (\<lambda>kv. fst kv \<noteq> k) kvs"

subsection \<open>Printing scalars: \<^verbatim>\<open>JSON.stringify\<close>\<close>

definition digit :: "nat \<Rightarrow> char" where
  "digit d = ''0123456789abcdef'' ! d"

function show_nat :: "nat \<Rightarrow> string" where
  "show_nat n = (if n < 10 then [digit n] else show_nat (n div 10) @ [digit (n mod 10)])"
  by pat_completeness auto
termination
  by (relation "measure id") auto

definition show_int :: "int \<Rightarrow> string" where
  "show_int i = (if i < 0 then CHR ''-'' # show_nat (nat (- i)) else show_nat (nat i))"

text \<open>
  \<^verbatim>\<open>QuoteJSONString\<close>: the double quote (0x22) and the backslash (0x5C) are escaped, the
  control characters below 0x20 get their short escape or \<^verbatim>\<open>\u00XX\<close>.
\<close>

definition escape_char :: "char \<Rightarrow> string" where
  "escape_char c =
    (if c = CHR 0x08 then [CHR 0x5C, CHR ''b'']
     else if c = CHR 0x09 then [CHR 0x5C, CHR ''t'']
     else if c = CHR 0x0A then [CHR 0x5C, CHR ''n'']
     else if c = CHR 0x0C then [CHR 0x5C, CHR ''f'']
     else if c = CHR 0x0D then [CHR 0x5C, CHR ''r'']
     else if c = CHR 0x22 then [CHR 0x5C, CHR 0x22]
     else if c = CHR 0x5C then [CHR 0x5C, CHR 0x5C]
     else if (of_char c :: nat) < 32
       then [CHR 0x5C, CHR ''u'', CHR ''0'', CHR ''0'',
             digit (of_char c div 16), digit (of_char c mod 16)]
     else [c])"

definition quote_json :: "string \<Rightarrow> string" where
  "quote_json s = CHR 0x22 # concat (map escape_char s) @ [CHR 0x22]"

text \<open>\<^verbatim>\<open>Array.prototype.join\<close>.\<close>

fun join :: "string \<Rightarrow> string list \<Rightarrow> string" where
  "join sep [] = []"
| "join sep [x] = x"
| "join sep (x # y # ys) = x @ sep @ join sep (y # ys)"

section \<open>Stable Serializer: \<^verbatim>\<open>_stableStringify\<close>\<close>

text \<open>
  \<^verbatim>\<open>
  _stableStringify(obj: any): string {
    if (obj === null || obj === undefined) return "";
    if (Array.isArray(obj))
      return "[" + obj.map((item) => this._stableStringify(item)).join(",") + "]";
    if (typeof obj === "object") {
      const sortedKeys = Object.keys(obj).sort();
      const pairs = sortedKeys.map((key) => `"${key}":${this._stableStringify(obj[key])}`);
      return "{" + pairs.join(",") + "}";
    }
    return JSON.stringify(obj);
  }
  \<close>
  \<^verbatim>\<open>sort()\<close> without a comparator orders strings by code unit, which is the
  lexicographic order of \<^typ>\<open>string\<close>. The property name is copied between the quotes
  as it is, without escaping.
\<close>

function stableStringify :: "json \<Rightarrow> string" where
  "stableStringify JNull = []"
| "stableStringify JUndefined = []"
| "stableStringify (JArr xs) = ''['' @ join '','' (map stableStringify xs) @ '']''"
| "stableStringify (JObj kvs) =
     ''{'' @ join '',''
       (map (\<lambda>key. CHR 0x22 # key @ [CHR 0x22, CHR '':''] @
                (case map_of kvs key of Some v \<Rightarrow> stableStringify v | None \<Rightarrow> []))
            (sort (map fst kvs))) @ ''}''"
| "stableStringify (JBool b) = (if b then ''true'' else ''false'')"
| "stableStringify (JNum n) = show_int n"
| "stableStringify (JStr s) = quote_json s"
  by pat_completeness auto
termination
proof (relation "measure size")
  show "wf (measure (size :: json \<Rightarrow> nat))" by simp
next
  fix xs :: "json list" and x
  assume "x \<in> set xs"
  then have "size x < Suc (size_list size xs)"
    by (induction xs) auto
  then show "(x, JArr xs) \<in> measure size" by simp
next
  fix kvs :: "(string \<times> json) list" and key v
  assume "map_of kvs key = Some v"
  then have "size v < Suc (size_list (size_prod (\<lambda>_. 0) size) kvs)"
    by (induction kvs) (auto split: if_splits)
  then show "(v, JObj kvs) \<in> measure size" by simp
qed

section \<open>Request descriptors\<close>

text \<open>\<^verbatim>\<open>type RequestKey = string | symbol\<close>; a symbol is known by its identity only.\<close>

datatype RequestKey = KString string | KSymbol nat

text \<open>Truthiness of a key: the empty string is falsy, every symbol is truthy.\<close>

fun truthy_key :: "RequestKey \<Rightarrow> bool" where
  "truthy_key (KString s) = (s \<noteq> [])"
| "truthy_key (KSymbol n) = True"

text \<open>An \<^verbatim>\<open>AbortController\<close> is known by its address in the store of controllers.\<close>

type_synonym handle = nat

text \<open>
  The fields of \<^verbatim>\<open>AxiosRequestConfig\<close> that the wrapper reads or writes. An absent
  \<^verbatim>\<open>params\<close> or \<^verbatim>\<open>data\<close> is \<^const>\<open>JUndefined\<close>; \<open>internalRequestKey\<close> is the field
  \<^verbatim>\<open>_requestKey\<close> that \<^verbatim>\<open>types.ts\<close> adds to \<^verbatim>\<open>InternalAxiosRequestConfig\<close>.
\<close>

record AxiosRequestConfig =
  "method" :: "string option"
  url :: "string option"
  params :: json
  data :: json
  paramsSerializer :: "(json \<Rightarrow> string) option"
  signal :: "handle option"
  internalRequestKey :: "RequestKey option"

text \<open>\<^verbatim>\<open>String.prototype.toUpperCase\<close> on the ASCII letters.\<close>

definition upper_char :: "char \<Rightarrow> char" where
  "upper_char c =
    (if CHR ''a'' \<le> c \<and> c \<le> CHR ''z'' then char_of (of_char c - (32::nat)) else c)"

definition toUpperCase :: "string \<Rightarrow> string" where
  "toUpperCase s = map upper_char s"

text \<open>\<^verbatim>\<open>s || d\<close> on an optional string: absent and empty both give the default.\<close>

definition or_string :: "string option \<Rightarrow> string \<Rightarrow> string" where
  "or_string s d = (case s of None \<Rightarrow> d | Some v \<Rightarrow> if v = [] then d else v)"

text \<open>
  Object spread \<^verbatim>\<open>{ ...v }\<close> of a truthy value: an object gives its own properties, an
  array and a string their elements under the index as property name, a number and a
  boolean nothing.
\<close>

fun spread :: "json \<Rightarrow> (string \<times> json) list" where
  "spread (JObj kvs) = kvs"
| "spread (JArr xs) = zip (map show_nat [0 ..< length xs]) xs"
| "spread (JStr s) = zip (map show_nat [0 ..< length s]) (map (\<lambda>c. JStr [c]) s)"
| "spread v = []"

section \<open>Key Generator: \<^verbatim>\<open>_generateRequestKey\<close>\<close>

text \<open>
  \<^verbatim>\<open>
  _generateRequestKey(config: AxiosRequestConfig): string {
    const method = (config.method || "GET").toUpperCase();
    const url = config.url || "";
    const params = config.params ? { ...config.params } : null;
    if (params?._t) { delete params._t; }
    const serializer = isFunction(config.paramsSerializer)
      ? config.paramsSerializer : this._paramsSerializer;
    let paramsStr = "";
    if (params) {
      paramsStr = serializer ? serializer(params) : this._stableStringify(params);
    }
    let dataStr = "";
    if (["POST", "PUT", "PATCH", "DELETE"].includes(method) && config.data) {
      dataStr = typeof config.data === "string" ? config.data : this._stableStringify(config.data);
    }
    return `${method}|${url}|${paramsStr}|${dataStr}`;
  }
  \<close>
  The first argument is \<^verbatim>\<open>this._paramsSerializer\<close>. The clone of the parameters is a
  new value: \<^verbatim>\<open>config.params\<close> itself is only read.
\<close>

definition strip_t :: "(string \<times> json) list \<Rightarrow> (string \<times> json) list" where
  "strip_t ps = (if truthy (prop_get ps ''_t'') then prop_delete ''_t'' ps else ps)"

definition generateRequestKey ::
  "(json \<Rightarrow> string) option \<Rightarrow> 'a AxiosRequestConfig_scheme \<Rightarrow> string" where
  "generateRequestKey thisParamsSerializer config =
    (let method' = toUpperCase (or_string (method config) ''GET'');
         url' = or_string (url config) [];
         params' = (if truthy (params config)
                    then Some (strip_t (spread (params config))) else None);
         serializer = (case paramsSerializer config of
                         Some f \<Rightarrow> Some f | None \<Rightarrow> thisParamsSerializer);
         paramsStr = (case params' of
                        None \<Rightarrow> []
                      | Some ps \<Rightarrow> (case serializer of
                                     Some f \<Rightarrow> f (JObj ps)
                                   | None \<Rightarrow> stableStringify (JObj ps)));
         dataStr = (if method' \<in> set [''POST'', ''PUT'', ''PATCH'', ''DELETE'']
                       \<and> truthy (data config)
                    then (case data config of
                            JStr s \<Rightarrow> s
                          | d \<Rightarrow> stableStringify d)
                    else [])
     in method' @ ''|'' @ url' @ ''|'' @ paramsStr @ ''|'' @ dataStr)"

section \<open>Responses, errors and the retry policy\<close>

record AxiosResponse =
  status :: int
  responseData :: json
  responseConfig :: AxiosRequestConfig

text \<open>
  What a failed attempt throws: \<open>CANCEL\<close> is the mark \<^verbatim>\<open>__CANCEL__\<close> that
  \<^verbatim>\<open>axios.isCancel\<close> tests, \<open>response\<close> is present when the server answered,
  \<open>errorConfig\<close> is \<^verbatim>\<open>error.config\<close>.
\<close>

record AxiosError =
  CANCEL :: bool
  response :: "AxiosResponse option"
  errorConfig :: "AxiosRequestConfig option"
  message :: string

definition isCancel :: "AxiosError \<Rightarrow> bool" where
  "isCancel error = CANCEL error"

text \<open>\<^verbatim>\<open>interface RetryConfig\<close>; the numbers \<open>count\<close> and \<open>delay\<close> are integers here.\<close>

record RetryConfig =
  count :: int
  delay :: int
  condition :: "AxiosError \<Rightarrow> bool"

text \<open>\<^verbatim>\<open>Partial<RetryConfig>\<close>: each field present or not.\<close>

record PartialRetryConfig =
  partialCount :: "int option"
  partialDelay :: "int option"
  partialCondition :: "(AxiosError \<Rightarrow> bool) option"

text \<open>
  \<^verbatim>\<open>
  export const DEFAULT_RETRY_CONFIG: RetryConfig = {
    count: 0,
    delay: 1000,
    condition: (error: AxiosError): boolean => {
      if (isCancel(error)) return false;
      if (!error?.response) return true;
      return error?.response?.status >= 500;
    },
  };
  \<close>
\<close>

definition DEFAULT_RETRY_CONFIG :: RetryConfig where
  "DEFAULT_RETRY_CONFIG =
    \<lparr>count = 0, delay = 1000,
     condition = (\<lambda>error.
       if isCancel error then False
       else (case response error of
               None \<Rightarrow> True
             | Some res \<Rightarrow> status res \<ge> 500))\<rparr>"

text \<open>
  The spread \<^verbatim>\<open>{ ...base, ...(retry || {}) }\<close>: every field present in \<open>retry\<close>
  replaces the field of \<open>base\<close>.
\<close>

definition mergeRetry :: "RetryConfig \<Rightarrow> PartialRetryConfig option \<Rightarrow> RetryConfig" where
  "mergeRetry base retry =
    (case retry of
       None \<Rightarrow> base
     | Some r \<Rightarrow>
         \<lparr>count = (case partialCount r of Some c \<Rightarrow> c | None \<Rightarrow> count base),
          delay = (case partialDelay r of Some d \<Rightarrow> d | None \<Rightarrow> delay base),
          condition = (case partialCondition r of Some p \<Rightarrow> p | None \<Rightarrow> condition base)\<rparr>)"

text \<open>\<^verbatim>\<open>interface RequestConfig extends AxiosRequestConfig\<close>.\<close>

record RequestConfig = AxiosRequestConfig +
  requestKey :: "RequestKey option"
  retry :: "PartialRetryConfig option"

record AxiosWrapperProOptions =
  optionsRetry :: "PartialRetryConfig option"
  optionsParamsSerializer :: "(json \<Rightarrow> string) option"

section \<open>The \<^verbatim>\<open>Map\<close> of the Cancellation Registry\<close>

text \<open>
  A JavaScript \<^verbatim>\<open>Map\<close> as ECMAScript defines it: the list \<^verbatim>\<open>[[MapData]]\<close> of entries
  in insertion order, where \<^verbatim>\<open>delete\<close> and \<^verbatim>\<open>clear\<close> leave an emptied entry
  (\<^const>\<open>None\<close>) in place, \<^verbatim>\<open>set\<close> overwrites the live entry of the key or appends a
  new one, and \<^verbatim>\<open>forEach\<close> walks the list by index, so that it sees what the callback
  appends.
\<close>

type_synonym 'v MapData = "(RequestKey \<times> 'v) option list"

definition map_entries :: "'v MapData \<Rightarrow> (RequestKey \<times> 'v) list" where
  "map_entries m = List.map_filter (\<lambda>e. e) m"

definition map_get :: "'v MapData \<Rightarrow> RequestKey \<Rightarrow> 'v option" where
  "map_get m k = map_of (map_entries m) k"

definition map_size :: "'v MapData \<Rightarrow> nat" where
  "map_size m = length (map_entries m)"

definition map_delete :: "RequestKey \<Rightarrow> 'v MapData \<Rightarrow> 'v MapData" where
  "map_delete k m =
    map (\<lambda>e. case e of None \<Rightarrow> None
                     | Some (k', v) \<Rightarrow> if k' = k then None else Some (k', v)) m"

definition map_set :: "RequestKey \<Rightarrow> 'v \<Rightarrow> 'v MapData \<Rightarrow> 'v MapData" where
  "map_set k v m =
    (if map_get m k \<noteq> None
     then map (\<lambda>e. case e of None \<Rightarrow> None
                          | Some (k', v') \<Rightarrow> if k' = k then Some (k, v) else Some (k', v')) m
     else m @ [Some (k, v)])"

definition map_clear :: "'v MapData \<Rightarrow> 'v MapData" where
  "map_clear m = map (\<lambda>e. None) m"

section \<open>The state of an \<^verbatim>\<open>AxiosWrapperPro\<close>\<close>

text \<open>The signal of a controller: \<^verbatim>\<open>signal.aborted\<close> and \<^verbatim>\<open>signal.reason\<close>.\<close>

record AbortController =
  aborted :: bool
  reason :: "string option"

text \<open>
  The fields \<^verbatim>\<open>_abortControllers\<close>, \<^verbatim>\<open>_retryConfig\<close> and \<^verbatim>\<open>_paramsSerializer\<close> of the
  class, with the store \<open>controllers\<close> of the controller objects the registry points
  to (a handle is an index of this list), the log \<open>abort_calls\<close> of every call of
  \<^verbatim>\<open>controller.abort\<close> in order, and \<open>world\<close>, everything else that code running at an
  \<^verbatim>\<open>await\<close> can see.
\<close>

record 'w AxiosWrapperPro =
  abortControllers :: "handle MapData"
  retryConfig :: RetryConfig
  thisParamsSerializer :: "(json \<Rightarrow> string) option"
  controllers :: "AbortController list"
  abort_calls :: "handle list"
  world :: 'w

text \<open>
  \<^verbatim>\<open>
  constructor(options: AxiosWrapperProOptions = {}) {
    this._abortControllers = new Map();
    this._retryConfig = { ...DEFAULT_RETRY_CONFIG, ...(options?.retry || {}) };
    this._paramsSerializer = isFunction(options.paramsSerializer) ? options.paramsSerializer : null;
    ...
  }
  \<close>
\<close>

definition constructor :: "AxiosWrapperProOptions \<Rightarrow> 'w \<Rightarrow> 'w AxiosWrapperPro" where
  "constructor options w =
    \<lparr>abortControllers = [],
     retryConfig = mergeRetry DEFAULT_RETRY_CONFIG (optionsRetry options),
     thisParamsSerializer = optionsParamsSerializer options,
     controllers = [],
     abort_calls = [],
     world = w\<rparr>"

text \<open>The default reason of a cancellation, the UTF-8 bytes of the source's literal.\<close>

definition DEFAULT_REASON :: string where
  "DEFAULT_REASON =
    [CHR 0xE8, CHR 0xAF, CHR 0xB7, CHR 0xE6, CHR 0xB1, CHR 0x82, CHR 0xE5, CHR 0xB7, CHR 0xB2,
     CHR 0xE5, CHR 0x8F, CHR 0x96, CHR 0xE6, CHR 0xB6, CHR 0x88]"

text \<open>
  \<^verbatim>\<open>controller.abort(reason)\<close>. The first call on a controller sets the flag of its
  signal and fires the \<^verbatim>\<open>abort\<close> event, whose listeners run before \<^verbatim>\<open>abort\<close>
  returns; a later call does nothing. What the listeners of a handle do is the
  parameter \<open>listeners\<close>. A handle that is no index of the store (JavaScript has no such
  reference) is logged and nothing else.
\<close>

definition abort ::
  "(handle \<Rightarrow> 'w AxiosWrapperPro \<Rightarrow> 'w AxiosWrapperPro) \<Rightarrow> handle \<Rightarrow> string
    \<Rightarrow> 'w AxiosWrapperPro \<Rightarrow> 'w AxiosWrapperPro" where
  "abort listeners h r this =
    (let this1 = this\<lparr>abort_calls := abort_calls this @ [h]\<rparr>
     in if h < length (controllers this1) \<and> \<not> aborted (controllers this1 ! h)
        then listeners h
               (this1\<lparr>controllers := (controllers this1)[h := \<lparr>aborted = True, reason = Some r\<rparr>]\<rparr>)
        else this1)"

text \<open>A handle without listeners.\<close>

definition no_listeners :: "handle \<Rightarrow> 'w AxiosWrapperPro \<Rightarrow> 'w AxiosWrapperPro" where
  "no_listeners h this = this"

section \<open>Cancellation Registry\<close>

text \<open>
  \<^verbatim>\<open>
  cancelRequest(key: RequestKey, reason?: string): boolean {
    const controller = this._abortControllers.get(key);
    if (controller) {
      controller.abort(reason || "...");
      this._abortControllers.delete(key);
      return true;
    }
    return false;
  }
  \<close>
\<close>

definition cancelRequest ::
  "(handle \<Rightarrow> 'w AxiosWrapperPro \<Rightarrow> 'w AxiosWrapperPro) \<Rightarrow> RequestKey \<Rightarrow> string option
    \<Rightarrow> 'w AxiosWrapperPro \<Rightarrow> bool \<times> 'w AxiosWrapperPro" where
  "cancelRequest listeners key reason' this =
    (case map_get (abortControllers this) key of
       Some controller \<Rightarrow>
         (let this1 = abort listeners controller (or_string reason' DEFAULT_REASON) this
          in (True, this1\<lparr>abortControllers := map_delete key (abortControllers this1)\<rparr>))
     | None \<Rightarrow> (False, this))"

text \<open>
  \<^verbatim>\<open>
  _setupAbortController(config: AxiosRequestConfig, customKey: RequestKey) {
    const key = customKey ?? this._generateRequestKey(config);
    this.cancelRequest(key);
    const controller = new AbortController();
    this._abortControllers.set(key, controller);
    return { ...config, signal: controller.signal, _requestKey: key };
  }
  \<close>
\<close>

definition setupAbortController ::
  "(handle \<Rightarrow> 'w AxiosWrapperPro \<Rightarrow> 'w AxiosWrapperPro) \<Rightarrow> AxiosRequestConfig
    \<Rightarrow> RequestKey option \<Rightarrow> 'w AxiosWrapperPro \<Rightarrow> AxiosRequestConfig \<times> 'w AxiosWrapperPro" where
  "setupAbortController listeners config customKey this =
    (let key = (case customKey of
                  Some k \<Rightarrow> k
                | None \<Rightarrow> KString (generateRequestKey (thisParamsSerializer this) config));
         this1 = snd (cancelRequest listeners key None this);
         controller = length (controllers this1);
         this2 = this1\<lparr>controllers := controllers this1 @ [\<lparr>aborted = False, reason = None\<rparr>]\<rparr>;
         this3 = this2\<lparr>abortControllers := map_set key controller (abortControllers this2)\<rparr>
     in (config\<lparr>signal := Some controller, internalRequestKey := Some key\<rparr>, this3))"

text \<open>
  \<^verbatim>\<open>Map.prototype.forEach\<close> on \<^verbatim>\<open>this._abortControllers\<close>, from entry \<open>index\<close> on. The
  walk ends when the index reaches the length the list has at that moment; a callback
  that appends an entry at every visit keeps it going for ever, which is the value
  \<^const>\<open>None\<close>.
\<close>

partial_function (option) forEach ::
  "(handle \<Rightarrow> 'w AxiosWrapperPro \<Rightarrow> 'w AxiosWrapperPro) \<Rightarrow> nat \<Rightarrow> 'w AxiosWrapperPro
    \<Rightarrow> 'w AxiosWrapperPro option" where
  "forEach callbackfn index this =
    (if index < length (abortControllers this)
     then (case abortControllers this ! index of
             None \<Rightarrow> forEach callbackfn (Suc index) this
           | Some (key, controller) \<Rightarrow> forEach callbackfn (Suc index) (callbackfn controller this))
     else Some this)"

text \<open>
  \<^verbatim>\<open>
  cancelAllRequests(reason?: string): number {
    const count = this._abortControllers.size;
    this._abortControllers.forEach((controller) => {
      controller.abort(reason || "...");
    });
    this._abortControllers.clear();
    return count;
  }
  \<close>
\<close>

definition cancelAllRequests ::
  "(handle \<Rightarrow> 'w AxiosWrapperPro \<Rightarrow> 'w AxiosWrapperPro) \<Rightarrow> string option
    \<Rightarrow> 'w AxiosWrapperPro \<Rightarrow> (nat \<times> 'w AxiosWrapperPro) option" where
  "cancelAllRequests listeners reason' this =
    (let count' = map_size (abortControllers this)
     in case forEach (\<lambda>controller. abort listeners controller (or_string reason' DEFAULT_REASON))
               0 this of
          None \<Rightarrow> None
        | Some this1 \<Rightarrow>
            Some (count', this1\<lparr>abortControllers := map_clear (abortControllers this1)\<rparr>))"

section \<open>Interceptor Manager: the installed response interceptors\<close>

text \<open>
  \<^verbatim>\<open>
  this._responseInterceptorId = this._instance.interceptors.response.use(
    (res) => {
      const key = res.config._requestKey;
      key && this._abortControllers.delete(key);
      return response(res);
    },
    (error) => {
      const key = error.config?._requestKey;
      key && this._abortControllers.delete(key);
      return responseError(error);
    }
  );
  \<close>
  The hooks \<open>response'\<close> and \<open>responseError\<close> are what \<^verbatim>\<open>_getInterceptors\<close> returns
  (the user's or the default); they run on the wrapper as the removal left it. A key is
  \<^verbatim>\<open>undefined\<close> (\<^const>\<open>None\<close>), a string or a symbol, and \<^verbatim>\<open>key && ...\<close> tests its
  truthiness.
\<close>

definition responseFulfilled ::
  "(AxiosResponse \<Rightarrow> 'w AxiosWrapperPro \<Rightarrow> 'a \<times> 'w AxiosWrapperPro) \<Rightarrow> AxiosResponse
    \<Rightarrow> 'w AxiosWrapperPro \<Rightarrow> 'a \<times> 'w AxiosWrapperPro" where
  "responseFulfilled response' res this =
    (let key = internalRequestKey (responseConfig res);
         this1 = (case key of
                    None \<Rightarrow> this
                  | Some k \<Rightarrow>
                      if truthy_key k
                      then this\<lparr>abortControllers := map_delete k (abortControllers this)\<rparr>
                      else this)
     in response' res this1)"

definition responseRejected ::
  "(AxiosError \<Rightarrow> 'w AxiosWrapperPro \<Rightarrow> 'a \<times> 'w AxiosWrapperPro) \<Rightarrow> AxiosError
    \<Rightarrow> 'w AxiosWrapperPro \<Rightarrow> 'a \<times> 'w AxiosWrapperPro" where
  "responseRejected responseError error this =
    (let key = (case errorConfig error of None \<Rightarrow> None | Some c \<Rightarrow> internalRequestKey c);
         this1 = (case key of
                    None \<Rightarrow> this
                  | Some k \<Rightarrow>
                      if truthy_key k
                      then this\<lparr>abortControllers := map_delete k (abortControllers this)\<rparr>
                      else this)
     in responseError error this1)"

section \<open>Retry Controller: \<^verbatim>\<open>request\<close>\<close>

text \<open>How an awaited call of the transport settles.\<close>

datatype 'r outcome = Resolved 'r | Rejected AxiosError

text \<open>
  \<^verbatim>\<open>
  for (let attempt = 0; attempt <= retryConfig.count; attempt++) {
    try {
      if (attempt > 0) { this._abortControllers.delete(configKey); }
      const finalConfig = this._setupAbortController(requestConfig, configKey);
      const result = await this._instance.request(finalConfig);
      return result;
    } catch (error: any) {
      lastError = error;
      this._abortControllers.delete(configKey);
      const isLast = attempt === retryConfig.count;
      const shouldRetry = retryConfig.condition(error);
      const isCancelled = axios.isCancel(error);
      if (isLast || !shouldRetry || isCancelled) { break; }
      if (retryConfig.delay > 0) { await sleep(retryConfig.delay); }
    }
  }
  return Promise.reject(lastError);
  \<close>
  \<open>transport\<close> is the awaited \<^verbatim>\<open>this._instance.request\<close>: it settles and leaves the
  wrapper as the interceptors and whatever else ran meanwhile left it; \<open>sleep\<close> is what
  ran during the awaited delay. The result is the settlement of the returned promise
  (\<^const>\<open>Inl\<close> the rejection value, \<^const>\<open>None\<close> for \<^verbatim>\<open>null\<close>), the list of the
  invocations of the transport in order, each with its settlement, and the wrapper.
\<close>

function retryLoop ::
  "(handle \<Rightarrow> 'w AxiosWrapperPro \<Rightarrow> 'w AxiosWrapperPro)
    \<Rightarrow> (AxiosRequestConfig \<Rightarrow> 'w AxiosWrapperPro \<Rightarrow> 'r outcome \<times> 'w AxiosWrapperPro)
    \<Rightarrow> (int \<Rightarrow> 'w AxiosWrapperPro \<Rightarrow> 'w AxiosWrapperPro)
    \<Rightarrow> RetryConfig \<Rightarrow> AxiosRequestConfig \<Rightarrow> RequestKey \<Rightarrow> int \<Rightarrow> AxiosError option
    \<Rightarrow> 'w AxiosWrapperPro
    \<Rightarrow> (AxiosError option + 'r) \<times> (AxiosRequestConfig \<times> 'r outcome) list \<times> 'w AxiosWrapperPro"
  where
  "retryLoop listeners transport sleep retryConfig' requestConfig configKey attempt lastError this =
    (if attempt \<le> count retryConfig' then
       (let this1 = (if attempt > 0
                     then this\<lparr>abortControllers := map_delete configKey (abortControllers this)\<rparr>
                     else this);
            (finalConfig, this2) =
               setupAbortController listeners requestConfig (Some configKey) this1;
            (settled, this3) = transport finalConfig this2
        in case settled of
             Resolved result \<Rightarrow> (Inr result, [(finalConfig, settled)], this3)
           | Rejected error \<Rightarrow>
               (let lastError' = Some error;
                    this4 = this3\<lparr>abortControllers := map_delete configKey (abortControllers this3)\<rparr>;
                    isLast = (attempt = count retryConfig');
                    shouldRetry = condition retryConfig' error;
                    isCancelled = isCancel error
                in if isLast \<or> \<not> shouldRetry \<or> isCancelled
                   then (Inl lastError', [(finalConfig, settled)], this4)
                   else
                     (let this5 = (if delay retryConfig' > 0
                                   then sleep (delay retryConfig') this4 else this4);
                          (settlement, invocations, this6) =
                             retryLoop listeners transport sleep retryConfig' requestConfig
                               configKey (attempt + 1) lastError' this5
                      in (settlement, (finalConfig, settled) # invocations, this6))))
     else (Inl lastError, [], this))"
  by pat_completeness auto
termination
  by (relation "measure (\<lambda>(listeners, transport, sleep, retryConfig', requestConfig,
                            configKey, attempt, lastError, this).
                          nat (count retryConfig' + 1 - attempt))") auto

text \<open>
  \<^verbatim>\<open>
  async request(method: string, url: string, config: RequestConfig = {}) {
    const { requestKey, retry, ...restConfig } = config;
    const retryConfig: RetryConfig = { ...this._retryConfig, ...(retry || {}) };
    const requestConfig: AxiosRequestConfig = { method, url, ...restConfig };
    let lastError: any = null;
    const configKey: RequestKey = requestKey ?? this._generateRequestKey(requestConfig);
    ...
  }
  \<close>
  In \<^verbatim>\<open>{ method, url, ...restConfig }\<close> a method or URL of \<^verbatim>\<open>config\<close> replaces the argument.
\<close>

definition resolveRetryConfig ::
  "'w AxiosWrapperPro \<Rightarrow> RequestConfig \<Rightarrow> RetryConfig" where
  "resolveRetryConfig this config = mergeRetry (retryConfig this) (retry config)"

definition buildRequestConfig :: "string \<Rightarrow> string \<Rightarrow> RequestConfig \<Rightarrow> AxiosRequestConfig" where
  "buildRequestConfig method' url' config =
    (let restConfig = AxiosRequestConfig.truncate config
     in restConfig
          \<lparr>method := (case method restConfig of Some m \<Rightarrow> Some m | None \<Rightarrow> Some method'),
           url := (case url restConfig of Some u \<Rightarrow> Some u | None \<Rightarrow> Some url')\<rparr>)"

definition request ::
  "(handle \<Rightarrow> 'w AxiosWrapperPro \<Rightarrow> 'w AxiosWrapperPro)
    \<Rightarrow> (AxiosRequestConfig \<Rightarrow> 'w AxiosWrapperPro \<Rightarrow> 'r outcome \<times> 'w AxiosWrapperPro)
    \<Rightarrow> (int \<Rightarrow> 'w AxiosWrapperPro \<Rightarrow> 'w AxiosWrapperPro)
    \<Rightarrow> string \<Rightarrow> string \<Rightarrow> RequestConfig \<Rightarrow> 'w AxiosWrapperPro
    \<Rightarrow> (AxiosError option + 'r) \<times> (AxiosRequestConfig \<times> 'r outcome) list \<times> 'w AxiosWrapperPro"
  where
  "request listeners transport sleep method' url' config this =
    (let retryConfig' = resolveRetryConfig this config;
         requestConfig = buildRequestConfig method' url' config;
         configKey = (case requestKey config of
                        Some k \<Rightarrow> k
                      | None \<Rightarrow> KString (generateRequestKey (thisParamsSerializer this)
                                           requestConfig))
     in retryLoop listeners transport sleep retryConfig' requestConfig configKey 0 None this)"

section \<open>Concrete environments\<close>

text \<open>
  A wrapper built with no options, whose \<open>world\<close> counts the invocations of the
  transport; a transport that settles its \<open>n\<close>-th invocation as a script says; a delay
  during which nothing else runs.
\<close>

definition example_wrapper :: "nat AxiosWrapperPro" where
  "example_wrapper = constructor \<lparr>optionsRetry = None, optionsParamsSerializer = None\<rparr> 0"

definition example_config :: "RequestKey option \<Rightarrow> int \<Rightarrow> RequestConfig" where
  "example_config k n =
    \<lparr>method = None, url = None, params = JUndefined, data = JUndefined,
     paramsSerializer = None, signal = None, internalRequestKey = None,
     requestKey = k,
     retry = Some \<lparr>partialCount = Some n, partialDelay = Some 0, partialCondition = None\<rparr>\<rparr>"

definition networkError :: AxiosError where
  "networkError = \<lparr>CANCEL = False, response = None, errorConfig = None, message = ''Network Error''\<rparr>"

definition canceledError :: AxiosError where
  "canceledError = \<lparr>CANCEL = True, response = None, errorConfig = None, message = ''canceled''\<rparr>"

definition statusError :: "int \<Rightarrow> AxiosError" where
  "statusError code =
    \<lparr>CANCEL = False,
     response = Some \<lparr>status = code, responseData = JNull,
                      responseConfig = \<lparr>method = None, url = None, params = JUndefined,
                        data = JUndefined, paramsSerializer = None, signal = None,
                        internalRequestKey = None\<rparr>\<rparr>,
     errorConfig = None, message = ''Request failed''\<rparr>"

definition scripted_transport ::
  "(nat \<Rightarrow> 'r outcome) \<Rightarrow> AxiosRequestConfig \<Rightarrow> nat AxiosWrapperPro
    \<Rightarrow> 'r outcome \<times> nat AxiosWrapperPro" where
  "scripted_transport script finalConfig this = (script (world this), this\<lparr>world := Suc (world this)\<rparr>)"

definition no_sleep :: "int \<Rightarrow> 'w AxiosWrapperPro \<Rightarrow> 'w AxiosWrapperPro" where
  "no_sleep ms this = this"

text \<open>Scripts: failing for ever; a network error, then status 404; a network error, then a cancellation.\<close>

definition always_network_error :: "nat \<Rightarrow> AxiosResponse outcome" where
  "always_network_error n = Rejected networkError"

definition network_error_then_404 :: "nat \<Rightarrow> AxiosResponse outcome" where
  "network_error_then_404 n = (if n = 0 then Rejected networkError else Rejected (statusError 404))"

definition network_error_then_cancel :: "nat \<Rightarrow> AxiosResponse outcome" where
  "network_error_then_cancel n = (if n = 0 then Rejected networkError else Rejected canceledError)"

text \<open>
  \<^verbatim>\<open>
  export const DEFAULT_INTERCEPTOR: InterceptorConfig = {
    request: (config) => config,
    requestError: (error) => Promise.reject(error),
    response: (response) => response,
    responseError: (error) => Promise.reject(error),
  };
  \<close>
  The two response hooks, and a transport whose server answers every request with the
  given status, the answer passing through the installed response interceptor.
\<close>

definition DEFAULT_response :: "AxiosResponse \<Rightarrow> 'w AxiosWrapperPro \<Rightarrow> AxiosResponse outcome \<times> 'w AxiosWrapperPro" where
  "DEFAULT_response res this = (Resolved res, this)"

definition DEFAULT_responseError :: "AxiosError \<Rightarrow> 'w AxiosWrapperPro \<Rightarrow> AxiosResponse outcome \<times> 'w AxiosWrapperPro" where
  "DEFAULT_responseError error this = (Rejected error, this)"

definition answering_transport ::
  "int \<Rightarrow> AxiosRequestConfig \<Rightarrow> 'w AxiosWrapperPro \<Rightarrow> AxiosResponse outcome \<times> 'w AxiosWrapperPro" where
  "answering_transport code finalConfig this =
     responseFulfilled DEFAULT_response
       \<lparr>status = code, responseData = JNull, responseConfig = finalConfig\<rparr> this"

text \<open>A request without parameters, and the wrapper with that request pending under a key.\<close>

definition example_request :: AxiosRequestConfig where
  "example_request = buildRequestConfig ''GET'' ''/u'' (example_config None 0)"

definition pending_wrapper :: "RequestKey \<Rightarrow> nat AxiosWrapperPro" where
  "pending_wrapper key = snd (setupAbortController no_listeners example_request (Some key) example_wrapper)"

text \<open>
  An abort listener on the signal of controller 0 that registers again under the key:
  it calls \<^verbatim>\<open>_setupAbortController(config, key)\<close>, which is also what a call of
  \<^verbatim>\<open>request\<close> with that \<^verbatim>\<open>requestKey\<close> does before its first \<^verbatim>\<open>await\<close>. The other
  controllers have no listener.
\<close>

definition reregistering_listener :: "RequestKey \<Rightarrow> handle \<Rightarrow> nat AxiosWrapperPro \<Rightarrow> nat AxiosWrapperPro" where
  "reregistering_listener key h this =
     (if h = 0 then snd (setupAbortController no_listeners example_request (Some key) this) else this)"

text \<open>A \<^verbatim>\<open>get\<close> of \<^verbatim>\<open>/users\<close> with the given query parameters.\<close>

definition params_config :: "json \<Rightarrow> AxiosRequestConfig" where
  "params_config ps = \<lparr>method = Some ''get'', url = Some ''/users'', params = ps, data = JUndefined,
     paramsSerializer = None, signal = None, internalRequestKey = None\<rparr>"

section \<open>Notions of the specification\<close>

text \<open>
  A registry is in order when no key has two live entries and every entry points to a
  controller of the store.
\<close>

definition registry_ok :: "'w AxiosWrapperPro \<Rightarrow> bool" where
  "registry_ok this =
    (distinct (map fst (map_entries (abortControllers this))) \<and>
     list_all (\<lambda>e. snd e < length (controllers this)) (map_entries (abortControllers this)))"

text \<open>
  The retry policy as the specification words it: three layers in increasing
  precedence, the built-in default, the client-instance options, the per-call override,
  merged field by field.
\<close>

definition layered :: "'a \<Rightarrow> 'a option \<Rightarrow> 'a option \<Rightarrow> 'a" where
  "layered builtin instanceValue callValue =
    (case callValue of
       Some v \<Rightarrow> v
     | None \<Rightarrow> (case instanceValue of Some v \<Rightarrow> v | None \<Rightarrow> builtin))"

definition field_of :: "(PartialRetryConfig \<Rightarrow> 'a option) \<Rightarrow> PartialRetryConfig option \<Rightarrow> 'a option" where
  "field_of f layer = (case layer of None \<Rightarrow> None | Some r \<Rightarrow> f r)"

definition specRetryPolicy :: "PartialRetryConfig option \<Rightarrow> PartialRetryConfig option \<Rightarrow> RetryConfig" where
  "specRetryPolicy instanceRetry callRetry =
    \<lparr>count = layered (count DEFAULT_RETRY_CONFIG)
               (field_of partialCount instanceRetry) (field_of partialCount callRetry),
     delay = layered (delay DEFAULT_RETRY_CONFIG)
               (field_of partialDelay instanceRetry) (field_of partialDelay callRetry),
     condition = layered (condition DEFAULT_RETRY_CONFIG)
               (field_of partialCondition instanceRetry) (field_of partialCondition callRetry)\<rparr>"






section \<open>Properties of the registry\<close>

lemma map_entries_Nil [simp]: "map_entries [] = []"
  by (simp add: map_entries_def List.map_filter_def)

lemma map_entries_Cons [simp]:
  "map_entries (e # m) = (case e of None \<Rightarrow> map_entries m | Some kv \<Rightarrow> kv # map_entries m)"
  by (cases e) (simp_all add: map_entries_def List.map_filter_def)

lemma map_entries_append [simp]: "map_entries (m @ n) = map_entries m @ map_entries n"
  by (induction m) (simp_all split: option.splits)

lemma map_entries_delete:
  "map_entries (map_delete k m) = filter (\<lambda>e. fst e \<noteq> k) (map_entries m)"
  by (induction m) (auto simp: map_delete_def split: option.splits)

lemma map_entries_clear [simp]: "map_entries (map_clear m) = []"
  by (induction m) (simp_all add: map_clear_def)




lemma abort_no_listeners:
  "abort no_listeners h r w =
     w\<lparr>abort_calls := abort_calls w @ [h],
       controllers := (if h < length (controllers w) \<and> \<not> aborted (controllers w ! h)
                       then (controllers w)[h := \<lparr>aborted = True, reason = Some r\<rparr>]
                       else controllers w)\<rparr>"
  by (simp add: abort_def no_listeners_def Let_def)


text \<open>The registry of a new wrapper is in order, and cancelling a request keeps it so.\<close>

lemma registry_ok_constructor: "registry_ok (constructor options x)"
  by (simp add: registry_ok_def constructor_def)

lemma registry_ok_cancelRequest:
  assumes "registry_ok w"
  shows "registry_ok (snd (cancelRequest no_listeners key reason' w))"
proof (cases "map_get (abortControllers w) key")
  case None
  with assms show ?thesis by (simp add: cancelRequest_def)
next
  case (Some controller)
  with assms show ?thesis
    by (auto simp: cancelRequest_def registry_ok_def abort_no_listeners map_entries_delete
        list_all_iff distinct_map_filter)
qed

section \<open>Properties of the retry loop\<close>

declare retryLoop.simps [simp del]

lemma retryLoop_exhausted:
  "\<not> attempt \<le> count rc \<Longrightarrow> retryLoop L T S rc cfg key attempt le w = (Inl le, [], w)"
  by (subst retryLoop.simps) simp

lemma retryLoop_resolved:
  assumes "attempt \<le> count rc"
    and "setupAbortController L cfg (Some key)
           (if 0 < attempt then w\<lparr>abortControllers := map_delete key (abortControllers w)\<rparr>
            else w) = (fc, w2)"
    and "T fc w2 = (Resolved r, w3)"
  shows "retryLoop L T S rc cfg key attempt le w = (Inr r, [(fc, Resolved r)], w3)"
  using assms by (subst retryLoop.simps) simp

lemma retryLoop_stop:
  assumes "attempt \<le> count rc"
    and "setupAbortController L cfg (Some key)
           (if 0 < attempt then w\<lparr>abortControllers := map_delete key (abortControllers w)\<rparr>
            else w) = (fc, w2)"
    and "T fc w2 = (Rejected e, w3)"
    and "attempt = count rc \<or> \<not> condition rc e \<or> isCancel e"
  shows "retryLoop L T S rc cfg key attempt le w =
     (Inl (Some e), [(fc, Rejected e)],
      w3\<lparr>abortControllers := map_delete key (abortControllers w3)\<rparr>)"
  using assms by (subst retryLoop.simps) simp

lemma retryLoop_retry:
  assumes "attempt \<le> count rc"
    and "setupAbortController L cfg (Some key)
           (if 0 < attempt then w\<lparr>abortControllers := map_delete key (abortControllers w)\<rparr>
            else w) = (fc, w2)"
    and "T fc w2 = (Rejected e, w3)"
    and "\<not> (attempt = count rc \<or> \<not> condition rc e \<or> isCancel e)"
    and "retryLoop L T S rc cfg key (attempt + 1) (Some e)
           (if delay rc > 0
            then S (delay rc) (w3\<lparr>abortControllers := map_delete key (abortControllers w3)\<rparr>)
            else w3\<lparr>abortControllers := map_delete key (abortControllers w3)\<rparr>) = (s, invs, w6)"
  shows "retryLoop L T S rc cfg key attempt le w = (s, (fc, Rejected e) # invs, w6)"
  using assms by (subst retryLoop.simps) simp

text \<open>
  The shape of every run that enters the loop: at least one invocation and at most
  \<open>count + 1 - attempt\<close>; every invocation but the last was rejected with an error the
  predicate accepts and that is no cancellation; the last one decides the settlement.
\<close>

lemma retryLoop_shape:
  "attempt \<le> count rc \<Longrightarrow>
   retryLoop L T S rc cfg key attempt le w = (s, invs, w') \<Longrightarrow>
   invs \<noteq> [] \<and> int (length invs) \<le> count rc + 1 - attempt \<and>
   (\<forall>i. Suc i < length invs \<longrightarrow>
        (\<exists>e. snd (invs ! i) = Rejected e \<and> condition rc e \<and> \<not> isCancel e)) \<and>
   (case snd (last invs) of
      Resolved r \<Rightarrow> s = Inr r
    | Rejected e \<Rightarrow> s = Inl (Some e) \<and>
        (int (length invs) = count rc + 1 - attempt \<or> \<not> condition rc e \<or> isCancel e))"
proof (induction "nat (count rc + 1 - attempt)" arbitrary: attempt le w s invs w')
  case 0
  then show ?case by simp
next
  case (Suc n)
  obtain fc w2 where su:
    "setupAbortController L cfg (Some key) (if 0 < attempt then w\<lparr>abortControllers := map_delete key (abortControllers w)\<rparr>
       else w) = (fc, w2)"
    by (cases "setupAbortController L cfg (Some key) (if 0 < attempt then w\<lparr>abortControllers := map_delete key (abortControllers w)\<rparr>
       else w)")
  obtain settled w3 where tr: "T fc w2 = (settled, w3)"
    by (cases "T fc w2")
  show ?case
  proof (cases settled)
    case (Resolved r)
    have "retryLoop L T S rc cfg key attempt le w = (Inr r, [(fc, Resolved r)], w3)"
      using Suc.prems(1) su tr Resolved by (intro retryLoop_resolved) simp_all
    with Suc.prems show ?thesis by auto
  next
    case (Rejected e)
    show ?thesis
    proof (cases "attempt = count rc \<or> \<not> condition rc e \<or> isCancel e")
      case True
      have "retryLoop L T S rc cfg key attempt le w =
        (Inl (Some e), [(fc, Rejected e)],
         w3\<lparr>abortControllers := map_delete key (abortControllers w3)\<rparr>)"
        using Suc.prems(1) su tr Rejected True by (intro retryLoop_stop) simp_all
      with Suc.prems True show ?thesis by auto
    next
      case False
      let ?w5 = "if delay rc > 0
            then S (delay rc) (w3\<lparr>abortControllers := map_delete key (abortControllers w3)\<rparr>)
            else w3\<lparr>abortControllers := map_delete key (abortControllers w3)\<rparr>"
      obtain s' invs' w6 where rec:
        "retryLoop L T S rc cfg key (attempt + 1) (Some e) ?w5 = (s', invs', w6)"
        by (cases "retryLoop L T S rc cfg key (attempt + 1) (Some e) ?w5") auto
      from False Suc.prems(1) have le': "attempt + 1 \<le> count rc" by auto
      from Suc.hyps(2) have n: "n = nat (count rc + 1 - (attempt + 1))" by simp
      have "retryLoop L T S rc cfg key attempt le w = (s', (fc, Rejected e) # invs', w6)"
        using Suc.prems(1) su tr Rejected False rec by (intro retryLoop_retry) simp_all
      with Suc.prems(2) have res: "s = s'" "invs = (fc, Rejected e) # invs'" by simp_all
      note IH = Suc.hyps(1)[OF n le' rec]
      have nth: "\<exists>e. snd (invs ! i) = Rejected e \<and> condition rc e \<and> \<not> isCancel e"
        if "Suc i < length invs" for i
        using that IH False res(2) by (cases i) auto
      from IH res nth show ?thesis
        by (auto split: outcome.splits)
    qed
  qed
qed


lemma retryLoop_invocations_transport:
  "retryLoop L T S rc cfg key attempt le w = (s, invs, w') \<Longrightarrow>
   (fc, out) \<in> set invs \<Longrightarrow> \<exists>w1 w2. T fc w1 = (out, w2)"
proof (induction "nat (count rc + 1 - attempt)" arbitrary: attempt le w s invs w')
  case 0
  then have "\<not> attempt \<le> count rc" by simp
  then have "retryLoop L T S rc cfg key attempt le w = (Inl le, [], w)"
    by (rule retryLoop_exhausted)
  with 0 show ?case by simp
next
  case (Suc n)
  then have le: "attempt \<le> count rc" by simp
  obtain fc' w2 where su:
    "setupAbortController L cfg (Some key) (if 0 < attempt then w\<lparr>abortControllers := map_delete key (abortControllers w)\<rparr>
       else w) = (fc', w2)"
    by (cases "setupAbortController L cfg (Some key) (if 0 < attempt then w\<lparr>abortControllers := map_delete key (abortControllers w)\<rparr>
       else w)")
  obtain settled w3 where tr: "T fc' w2 = (settled, w3)"
    by (cases "T fc' w2")
  show ?case
  proof (cases settled)
    case (Resolved r)
    have "retryLoop L T S rc cfg key attempt le w = (Inr r, [(fc', Resolved r)], w3)"
      using le su tr Resolved by (intro retryLoop_resolved) simp_all
    with Suc.prems tr Resolved show ?thesis by fastforce
  next
    case (Rejected e)
    show ?thesis
    proof (cases "attempt = count rc \<or> \<not> condition rc e \<or> isCancel e")
      case True
      have "retryLoop L T S rc cfg key attempt le w =
        (Inl (Some e), [(fc', Rejected e)],
         w3\<lparr>abortControllers := map_delete key (abortControllers w3)\<rparr>)"
        using le su tr Rejected True by (intro retryLoop_stop) simp_all
      with Suc.prems tr Rejected show ?thesis by fastforce
    next
      case False
      let ?w5 = "if delay rc > 0
            then S (delay rc) (w3\<lparr>abortControllers := map_delete key (abortControllers w3)\<rparr>)
            else w3\<lparr>abortControllers := map_delete key (abortControllers w3)\<rparr>"
      obtain s' invs' w6 where rec:
        "retryLoop L T S rc cfg key (attempt + 1) (Some e) ?w5 = (s', invs', w6)"
        by (cases "retryLoop L T S rc cfg key (attempt + 1) (Some e) ?w5") auto
      from Suc.hyps(2) have n: "n = nat (count rc + 1 - (attempt + 1))" by simp
      have "retryLoop L T S rc cfg key attempt le w = (s', (fc', Rejected e) # invs', w6)"
        using le su tr Rejected False rec by (intro retryLoop_retry) simp_all
      with Suc.prems(1) have res: "invs = (fc', Rejected e) # invs'" by simp
      from Suc.prems(2) res consider "(fc, out) = (fc', Rejected e)" | "(fc, out) \<in> set invs'"
        by auto
      then show ?thesis
      proof cases
        case 1
        with tr Rejected show ?thesis by fastforce
      next
        case 2
        from Suc.hyps(1)[OF n rec 2] show ?thesis .
      qed
    qed
  qed
qed

lemma request_unfold:
  "request L T S m u config w =
     retryLoop L T S (resolveRetryConfig w config) (buildRequestConfig m u config)
       (case requestKey config of
          Some k \<Rightarrow> k
        | None \<Rightarrow> KString (generateRequestKey (thisParamsSerializer w)
                             (buildRequestConfig m u config))) 0 None w"
  by (simp add: request_def Let_def)

lemma request_no_attempt:
  "\<not> 0 \<le> count (resolveRetryConfig w config) \<Longrightarrow>
   request L T S m u config w = (Inl None, [], w)"
  by (simp add: request_unfold retryLoop_exhausted)

lemma request_shape:
  assumes "0 \<le> count (resolveRetryConfig w config)"
    and "request L T S m u config w = (s, invs, w')"
  shows "invs \<noteq> []"
    and "int (length invs) \<le> count (resolveRetryConfig w config) + 1"
    and "\<And>i. Suc i < length invs \<Longrightarrow>
          \<exists>e. snd (invs ! i) = Rejected e \<and>
              condition (resolveRetryConfig w config) e \<and> \<not> isCancel e"
    and "case snd (last invs) of
           Resolved r \<Rightarrow> s = Inr r
         | Rejected e \<Rightarrow> s = Inl (Some e) \<and>
             (int (length invs) = count (resolveRetryConfig w config) + 1 \<or>
              \<not> condition (resolveRetryConfig w config) e \<or> isCancel e)"
  using retryLoop_shape[OF _ assms(2)[unfolded request_unfold]] assms(1)
  by (simp_all cong: outcome.case_cong)

lemma request_invocations_transport:
  "request L T S m u config w = (s, invs, w') \<Longrightarrow>
   (fc, out) \<in> set invs \<Longrightarrow> \<exists>w1 w2. T fc w1 = (out, w2)"
  unfolding request_unfold by (rule retryLoop_invocations_transport)

lemma last_is_nth: "Suc i = length xs \<Longrightarrow> last xs = xs ! i"
  by (cases xs) (auto simp: last_conv_nth)

lemmas example_defs = example_wrapper_def example_config_def networkError_def canceledError_def
  statusError_def scripted_transport_def no_sleep_def constructor_def mergeRetry_def
  DEFAULT_RETRY_CONFIG_def resolveRetryConfig_def buildRequestConfig_def isCancel_def
  AxiosRequestConfig.truncate_def always_network_error_def network_error_then_404_def
  network_error_then_cancel_def

lemmas registry_defs = setupAbortController_def cancelRequest_def abort_def no_listeners_def
  map_get_def map_set_def map_delete_def map_size_def map_clear_def or_string_def

lemma example_count:
  "count (resolveRetryConfig example_wrapper (example_config k n)) = n"
  by (simp add: example_defs)

lemma example_condition:
  "condition (resolveRetryConfig example_wrapper (example_config k n)) e =
     (\<not> CANCEL e \<and> (case response e of None \<Rightarrow> True | Some res \<Rightarrow> 500 \<le> status res))"
  by (simp add: example_defs)

lemma example_run_network_error_then_404:
  "request no_listeners (scripted_transport network_error_then_404) no_sleep ''GET'' ''/u''
     (example_config (Some (KString ''k'')) 2) example_wrapper =
   (Inl (Some (statusError 404)),
    [(\<lparr>method = Some ''GET'', url = Some ''/u'', params = JUndefined, data = JUndefined,
        paramsSerializer = None, signal = Some 0, internalRequestKey = Some (KString ''k'')\<rparr>,
      Rejected networkError),
     (\<lparr>method = Some ''GET'', url = Some ''/u'', params = JUndefined, data = JUndefined,
        paramsSerializer = None, signal = Some 1, internalRequestKey = Some (KString ''k'')\<rparr>,
      Rejected (statusError 404))],
    example_wrapper\<lparr>abortControllers := [None, None],
      controllers := [\<lparr>aborted = False, reason = None\<rparr>, \<lparr>aborted = False, reason = None\<rparr>],
      world := 2\<rparr>)"
  apply (simp only: request_unfold)
  apply (subst retryLoop.simps)
  apply (subst retryLoop.simps)
  apply (simp add: example_defs registry_defs Let_def)
  done

lemma example_run_network_error_then_cancel:
  "request no_listeners (scripted_transport network_error_then_cancel) no_sleep ''GET'' ''/u''
     (example_config (Some (KString ''k'')) 3) example_wrapper =
   (Inl (Some canceledError),
    [(\<lparr>method = Some ''GET'', url = Some ''/u'', params = JUndefined, data = JUndefined,
        paramsSerializer = None, signal = Some 0, internalRequestKey = Some (KString ''k'')\<rparr>,
      Rejected networkError),
     (\<lparr>method = Some ''GET'', url = Some ''/u'', params = JUndefined, data = JUndefined,
        paramsSerializer = None, signal = Some 1, internalRequestKey = Some (KString ''k'')\<rparr>,
      Rejected canceledError)],
    example_wrapper\<lparr>abortControllers := [None, None],
      controllers := [\<lparr>aborted = False, reason = None\<rparr>, \<lparr>aborted = False, reason = None\<rparr>],
      world := 2\<rparr>)"
  apply (simp only: request_unfold)
  apply (subst retryLoop.simps)
  apply (subst retryLoop.simps)
  apply (simp add: example_defs registry_defs Let_def)
  done

section \<open>Retry Controller: the claims\<close>

text \<open>
  Claim C1. When the merged retry count is a non-negative integer, a call of \<open>request\<close>
  invokes the transport at least once and at most \<open>count + 1\<close> times. If the transport
  always fails with an error that the predicate accepts and that is no cancellation,
  there are exactly \<open>count + 1\<close> invocations (3 for a count of 2). If every attempt
  fails and the predicate accepts the error of the first failure (attempt 0) and
  refuses the error of the next one (attempt 1), there are exactly 2 invocations.
\<close>

theorem request_invocations_bound:
  assumes "0 \<le> count (resolveRetryConfig w config)"
    and "request L T S m u config w = (s, invs, w')"
  shows "1 \<le> length invs \<and> int (length invs) \<le> count (resolveRetryConfig w config) + 1 \<and>
    ((\<forall>fc w1. \<exists>e w2. T fc w1 = (Rejected e, w2) \<and>
          condition (resolveRetryConfig w config) e \<and> \<not> isCancel e)
       \<longrightarrow> int (length invs) = count (resolveRetryConfig w config) + 1) \<and>
    (1 \<le> count (resolveRetryConfig w config) \<and>
     (\<forall>i < length invs. \<exists>e. snd (invs ! i) = Rejected e \<and> \<not> isCancel e \<and>
          (condition (resolveRetryConfig w config) e \<longleftrightarrow> i = 0))
       \<longrightarrow> length invs = 2)"
proof -
  let ?rc = "resolveRetryConfig w config"
  note ne = request_shape(1)[OF assms] and len = request_shape(2)[OF assms]
    and mid = request_shape(3)[OF assms] and lst = request_shape(4)[OF assms]
  have A: "int (length invs) = count ?rc + 1"
    if all: "\<forall>fc w1. \<exists>e w2. T fc w1 = (Rejected e, w2) \<and> condition ?rc e \<and> \<not> isCancel e"
  proof -
    obtain fc out where l: "last invs = (fc, out)" by (cases "last invs")
    with ne have "(fc, out) \<in> set invs" by (metis last_in_set)
    from request_invocations_transport[OF assms(2) this]
    obtain w1 w2 where "T fc w1 = (out, w2)" by blast
    with all obtain e where "out = Rejected e" "condition ?rc e" "\<not> isCancel e"
      by (metis fst_conv)
    with lst l show ?thesis by simp
  qed
  have B: "length invs = 2"
    if c1: "1 \<le> count ?rc"
      and all: "\<forall>i < length invs. \<exists>e. snd (invs ! i) = Rejected e \<and> \<not> isCancel e \<and>
          (condition ?rc e \<longleftrightarrow> i = 0)"
  proof -
    have "length invs \<noteq> 1"
    proof
      assume l1: "length invs = 1"
      then have "last invs = invs ! 0" by (simp add: last_is_nth)
      moreover from all l1 obtain e where "snd (invs ! 0) = Rejected e" "\<not> isCancel e"
        "condition ?rc e" by auto
      ultimately show False using lst l1 c1 by simp
    qed
    moreover have "\<not> 2 < length invs"
    proof
      assume "2 < length invs"
      then have 1: "Suc 1 < length invs" and 2: "1 < length invs" by simp_all
      from mid[OF 1] obtain e where "snd (invs ! 1) = Rejected e" "condition ?rc e" by auto
      moreover from all 2 obtain e' where "snd (invs ! 1) = Rejected e'" "\<not> condition ?rc e'"
        by auto
      ultimately show False by simp
    qed
    moreover from ne have "0 < length invs" by simp
    ultimately show ?thesis by linarith
  qed
  from ne len A B show ?thesis by (cases invs) auto
qed

theorem request_invocations_bound_witness:
  "count (resolveRetryConfig example_wrapper (example_config (Some (KString ''k'')) 2)) = 2 \<and>
   length (fst (snd (request no_listeners (scripted_transport always_network_error) no_sleep
     ''GET'' ''/u'' (example_config (Some (KString ''k'')) 2) example_wrapper))) = 3 \<and>
   length (fst (snd (request no_listeners (scripted_transport network_error_then_404) no_sleep
     ''GET'' ''/u'' (example_config (Some (KString ''k'')) 2) example_wrapper))) = 2"
proof -
  let ?cfg = "example_config (Some (KString ''k'')) 2"
  let ?R = "request no_listeners (scripted_transport always_network_error) no_sleep
     ''GET'' ''/u'' ?cfg example_wrapper"
  have c: "0 \<le> count (resolveRetryConfig example_wrapper ?cfg)"
    by (simp add: example_count)
  have always: "\<forall>fc w1. \<exists>e w2.
      scripted_transport always_network_error fc w1 = (Rejected e, w2) \<and>
      condition (resolveRetryConfig example_wrapper ?cfg) e \<and> \<not> isCancel e"
    by (simp add: example_condition scripted_transport_def always_network_error_def
        networkError_def isCancel_def)
  have "?R = (fst ?R, fst (snd ?R), snd (snd ?R))" by simp
  from request_invocations_bound[OF c this] always
  have three: "length (fst (snd ?R)) = 3" by (simp add: example_count)
  let ?invs = "fst (snd (request no_listeners (scripted_transport network_error_then_404)
     no_sleep ''GET'' ''/u'' ?cfg example_wrapper))"
  have firstonly: "\<forall>i < length ?invs. \<exists>e. snd (?invs ! i) = Rejected e \<and> \<not> isCancel e \<and>
          (condition (resolveRetryConfig example_wrapper ?cfg) e \<longleftrightarrow> i = 0)"
    by (simp add: example_run_network_error_then_404 example_condition less_Suc_eq
        networkError_def statusError_def isCancel_def)
  from request_invocations_bound[OF c example_run_network_error_then_404] firstonly
  have two: "length ?invs = 2" by (simp add: example_count example_run_network_error_then_404)
  from three two show ?thesis by (simp add: example_count)
qed

text \<open>
  Claim C2. Whatever the retry policy, if an attempt of \<open>request\<close> is rejected with an
  error for which \<^verbatim>\<open>axios.isCancel\<close> holds, that attempt is the last invocation of the
  transport and the returned promise is rejected with that very error.
\<close>

theorem request_cancel_stops:
  assumes "request L T S m u config w = (s, invs, w')"
    and "i < length invs"
    and "snd (invs ! i) = Rejected e"
    and "isCancel e"
  shows "Suc i = length invs \<and> s = Inl (Some e)"
proof -
  let ?rc = "resolveRetryConfig w config"
  have le: "0 \<le> count ?rc"
  proof (rule ccontr)
    assume "\<not> 0 \<le> count ?rc"
    then have "request L T S m u config w = (Inl None, [], w)" by (rule request_no_attempt)
    with assms(1,2) show False by simp
  qed
  have "\<not> Suc i < length invs"
    using request_shape(3)[OF le assms(1), of i] assms(3,4) by auto
  with assms(2) have i: "Suc i = length invs" by simp
  with request_shape(4)[OF le assms(1)] assms(3) show ?thesis
    by (simp add: last_is_nth)
qed

theorem request_cancel_stops_witness:
  "0 < count (resolveRetryConfig example_wrapper (example_config (Some (KString ''k'')) 3)) \<and>
   isCancel canceledError \<and>
   snd (fst (snd (request no_listeners (scripted_transport network_error_then_cancel) no_sleep
     ''GET'' ''/u'' (example_config (Some (KString ''k'')) 3) example_wrapper)) ! 1)
     = Rejected canceledError \<and>
   length (fst (snd (request no_listeners (scripted_transport network_error_then_cancel) no_sleep
     ''GET'' ''/u'' (example_config (Some (KString ''k'')) 3) example_wrapper))) = 2 \<and>
   fst (request no_listeners (scripted_transport network_error_then_cancel) no_sleep
     ''GET'' ''/u'' (example_config (Some (KString ''k'')) 3) example_wrapper)
     = Inl (Some canceledError)"
proof -
  have c: "isCancel canceledError" by (simp add: isCancel_def canceledError_def)
  from request_cancel_stops[OF example_run_network_error_then_cancel, of 1 canceledError] c
  show ?thesis
    by (simp add: example_run_network_error_then_cancel example_count)
qed

text \<open>
  Claim C8. When every attempt of a call of \<open>request\<close> fails, the returned promise is
  rejected with exactly the error of the last attempt, as the transport gave it; and
  an error that the predicate refuses ends the loop and is the rejection value as it
  is.
\<close>

theorem request_delivers_last_error:
  assumes "request L T S m u config w = (s, invs, w')"
  shows "(0 \<le> count (resolveRetryConfig w config) \<and>
          (\<forall>i < length invs. \<exists>e. snd (invs ! i) = Rejected e)
            \<longrightarrow> invs \<noteq> [] \<and> (\<exists>e. snd (last invs) = Rejected e \<and> s = Inl (Some e))) \<and>
         (\<forall>i e. i < length invs \<and> snd (invs ! i) = Rejected e \<and>
                \<not> condition (resolveRetryConfig w config) e
            \<longrightarrow> Suc i = length invs \<and> s = Inl (Some e))"
proof -
  let ?rc = "resolveRetryConfig w config"
  have le: "0 \<le> count ?rc" if "invs \<noteq> []"
  proof (rule ccontr)
    assume "\<not> 0 \<le> count ?rc"
    then have "request L T S m u config w = (Inl None, [], w)" by (rule request_no_attempt)
    with assms that show False by simp
  qed
  have A: "invs \<noteq> [] \<and> (\<exists>e. snd (last invs) = Rejected e \<and> s = Inl (Some e))"
    if c: "0 \<le> count ?rc" and all: "\<forall>i < length invs. \<exists>e. snd (invs ! i) = Rejected e"
  proof -
    note ne = request_shape(1)[OF c assms]
    then have "Suc (length invs - 1) = length invs" by simp
    then have "last invs = invs ! (length invs - 1)" by (rule last_is_nth)
    with all ne obtain e where "snd (last invs) = Rejected e"
      by (metis diff_less length_greater_0_conv zero_less_one)
    with request_shape(4)[OF c assms] ne show ?thesis by auto
  qed
  have B: "Suc i = length invs \<and> s = Inl (Some e)"
    if i: "i < length invs" and r: "snd (invs ! i) = Rejected e" and nc: "\<not> condition ?rc e"
    for i e
  proof -
    from i have c: "0 \<le> count ?rc" by (intro le) auto
    have "\<not> Suc i < length invs" using request_shape(3)[OF c assms, of i] r nc by auto
    with i have e: "Suc i = length invs" by simp
    with request_shape(4)[OF c assms] r show ?thesis by (simp add: last_is_nth)
  qed
  from A B show ?thesis by blast
qed

theorem request_delivers_last_error_witness:
  "0 \<le> count (resolveRetryConfig example_wrapper (example_config (Some (KString ''k'')) 2)) \<and>
   \<not> condition (resolveRetryConfig example_wrapper (example_config (Some (KString ''k'')) 2))
       (statusError 404) \<and>
   map snd (fst (snd (request no_listeners (scripted_transport network_error_then_404) no_sleep
     ''GET'' ''/u'' (example_config (Some (KString ''k'')) 2) example_wrapper)))
     = [Rejected networkError, Rejected (statusError 404)] \<and>
   fst (request no_listeners (scripted_transport network_error_then_404) no_sleep
     ''GET'' ''/u'' (example_config (Some (KString ''k'')) 2) example_wrapper)
     = Inl (Some (statusError 404))"
proof -
  let ?cfg = "example_config (Some (KString ''k'')) 2"
  have nc: "\<not> condition (resolveRetryConfig example_wrapper ?cfg) (statusError 404)"
    by (simp add: example_condition statusError_def)
  from request_delivers_last_error[OF example_run_network_error_then_404] nc
  show ?thesis
    by (simp add: example_run_network_error_then_404 example_count)
qed

text \<open>
  Claim C10. When the merged retry count is negative the loop body never runs: the
  transport is not invoked, the wrapper (its registry included) is left as it was, and
  the returned promise is rejected with \<^verbatim>\<open>null\<close>.
\<close>

theorem request_negative_count:
  assumes "count (resolveRetryConfig w config) < 0"
  shows "request L T S m u config w = (Inl None, [], w)"
  using assms by (simp add: request_unfold retryLoop_exhausted)

theorem request_negative_count_witness:
  "count (resolveRetryConfig example_wrapper (example_config None (- 1))) < 0 \<and>
   request no_listeners (scripted_transport always_network_error) no_sleep ''GET'' ''/u''
     (example_config None (- 1)) example_wrapper = (Inl None, [], example_wrapper)"
  using request_negative_count[of example_wrapper "example_config None (- 1)" no_listeners
      "scripted_transport always_network_error" no_sleep "''GET''" "''/u''"]
  by (simp add: example_count)

section \<open>Retry policy: the claim\<close>

text \<open>
  Claim C9. For every client-instance option set and every per-call override, the
  retry policy that \<open>request\<close> applies is the three-layer merge of the specification:
  for each of \<open>count\<close>, \<open>delay\<close> and \<open>condition\<close> the per-call field if present, else the
  instance field if present, else the built-in default. The wrapper is any state of an
  instance built from the options (\<^verbatim>\<open>_retryConfig\<close> is assigned in the constructor only).
\<close>

theorem request_retry_policy_layers:
  assumes "retryConfig w = retryConfig (constructor options x)"
  shows "resolveRetryConfig w config = specRetryPolicy (optionsRetry options) (retry config) \<and>
    request L T S m u config w =
      retryLoop L T S (specRetryPolicy (optionsRetry options) (retry config))
        (buildRequestConfig m u config)
        (case requestKey config of
           Some k \<Rightarrow> k
         | None \<Rightarrow> KString (generateRequestKey (thisParamsSerializer w)
                              (buildRequestConfig m u config))) 0 None w"
proof -
  have "resolveRetryConfig w config = specRetryPolicy (optionsRetry options) (retry config)"
    using assms
    by (simp add: resolveRetryConfig_def constructor_def mergeRetry_def specRetryPolicy_def
        layered_def field_of_def split: option.splits)
  then show ?thesis by (simp add: request_unfold)
qed

theorem request_retry_policy_layers_witness:
  "retryConfig (example_wrapper\<lparr>world := 7\<rparr>) =
     retryConfig (constructor \<lparr>optionsRetry = None, optionsParamsSerializer = None\<rparr> (0::nat)) \<and>
   count (resolveRetryConfig (example_wrapper\<lparr>world := 7\<rparr>) (example_config None 2)) = 2 \<and>
   delay (resolveRetryConfig (example_wrapper\<lparr>world := 7\<rparr>) (example_config None 2)) = 0 \<and>
   condition (resolveRetryConfig (example_wrapper\<lparr>world := 7\<rparr>) (example_config None 2)) =
     condition DEFAULT_RETRY_CONFIG"
  using request_retry_policy_layers[of "example_wrapper\<lparr>world := 7\<rparr>"
      "\<lparr>optionsRetry = None, optionsParamsSerializer = None\<rparr>" "0::nat" "example_config None 2"
      no_listeners "scripted_transport always_network_error" no_sleep "''GET''" "''/u''"]
  by (simp add: example_wrapper_def example_config_def specRetryPolicy_def layered_def
      field_of_def)

section \<open>Cancellation Registry: the claims\<close>

lemma pending_wrapper_eq:
  "pending_wrapper key = example_wrapper\<lparr>abortControllers := [Some (key, 0)],
     controllers := [\<lparr>aborted = False, reason = None\<rparr>]\<rparr>"
  by (simp add: pending_wrapper_def example_request_def example_defs registry_defs Let_def)




lemma forEach_done:
  "\<not> index < length (abortControllers w) \<Longrightarrow> forEach f index w = Some w"
  by (subst forEach.simps) simp

lemma forEach_skip:
  "index < length (abortControllers w) \<Longrightarrow> abortControllers w ! index = None \<Longrightarrow>
   forEach f index w = forEach f (Suc index) w"
  by (subst forEach.simps) simp

lemma forEach_visit:
  "index < length (abortControllers w) \<Longrightarrow> abortControllers w ! index = Some (k, c) \<Longrightarrow>
   forEach f index w = forEach f (Suc index) (f c w)"
  by (subst forEach.simps) simp

lemma forEach_no_listeners:
  "forEach (\<lambda>controller. abort no_listeners controller r) index w =
     Some (fold (\<lambda>h. abort no_listeners h r)
             (map snd (map_entries (drop index (abortControllers w)))) w)"
proof (induction "length (abortControllers w) - index" arbitrary: index w)
  case 0
  then show ?case by (simp add: forEach_done)
next
  case (Suc n)
  then have lt: "index < length (abortControllers w)" by simp
  then have dr: "drop index (abortControllers w) =
      abortControllers w ! index # drop (Suc index) (abortControllers w)"
    by (simp add: Cons_nth_drop_Suc)
  show ?case
  proof (cases "abortControllers w ! index")
    case None
    from Suc.hyps(2) have "n = length (abortControllers w) - Suc index" by simp
    from Suc.hyps(1)[OF this] None lt show ?thesis
      by (simp add: forEach_skip dr)
  next
    case (Some e)
    obtain k c where e: "e = (k, c)" by (cases e)
    let ?w1 = "abort no_listeners c r w"
    have reg: "abortControllers ?w1 = abortControllers w" by (simp add: abort_no_listeners)
    with Suc.hyps(2) have "n = length (abortControllers ?w1) - Suc index" by simp
    from Suc.hyps(1)[OF this] Some e lt show ?thesis
      by (simp add: forEach_visit[where k = k and c = c] dr reg)
  qed
qed

lemma fold_abort_no_listeners:
  "abortControllers (fold (\<lambda>h. abort no_listeners h r) hs w) = abortControllers w \<and>
   abort_calls (fold (\<lambda>h. abort no_listeners h r) hs w) = abort_calls w @ hs \<and>
   length (controllers (fold (\<lambda>h. abort no_listeners h r) hs w)) = length (controllers w) \<and>
   (\<forall>h < length (controllers w).
      aborted (controllers (fold (\<lambda>h. abort no_listeners h r) hs w) ! h) =
        (h \<in> set hs \<or> aborted (controllers w ! h)))"
proof (induction hs arbitrary: w)
  case Nil
  then show ?case by simp
next
  case (Cons a hs)
  let ?w1 = "abort no_listeners a r w"
  have 1: "abortControllers ?w1 = abortControllers w" "abort_calls ?w1 = abort_calls w @ [a]"
    "length (controllers ?w1) = length (controllers w)"
    by (simp_all add: abort_no_listeners)
  have 2: "aborted (controllers ?w1 ! h) = (h = a \<or> aborted (controllers w ! h))"
    if "h < length (controllers w)" for h
    using that by (auto simp: abort_no_listeners nth_list_update)
  from Cons[of ?w1] 1 2 show ?case by auto
qed

text \<open>
  Claim C5, as stated, fails: \<open>cancelAllRequests\<close> walks the live \<^verbatim>\<open>Map\<close>, no snapshot.
  With one entry whose abort listener registers again under the same key, the walk
  also visits the new entry: two controllers end up aborted, where the registry held
  one entry and the call returns 1.
\<close>

theorem cancelAllRequests_reentrant_counterexample:
  "map_size (abortControllers (pending_wrapper (KString ''k''))) = 1 \<and>
   cancelAllRequests (reregistering_listener (KString ''k'')) None (pending_wrapper (KString ''k'')) =
     Some (1, example_wrapper\<lparr>abortControllers := [None, None],
       controllers := [\<lparr>aborted = True, reason = Some DEFAULT_REASON\<rparr>,
                       \<lparr>aborted = True, reason = Some DEFAULT_REASON\<rparr>],
       abort_calls := [0, 0, 1]\<rparr>)"
  by (simp add: pending_wrapper_eq cancelAllRequests_def Let_def forEach_done forEach_skip
      forEach_visit reregistering_listener_def example_request_def example_defs registry_defs)

text \<open>
  Claim C5, amended. When no abort listener re-enters the wrapper, \<open>cancelAllRequests\<close> on
  a registry with \<open>N\<close> entries returns \<open>N\<close>, calls \<^verbatim>\<open>abort\<close> on exactly the \<open>N\<close>
  controllers of the entries, in order, each of which is aborted afterwards, and leaves
  the registry empty. With any listeners, whenever the call returns, it returns the
  number of entries it started with and leaves the registry empty.
\<close>

theorem cancelAllRequests_without_reentry:
  "(\<exists>w'. cancelAllRequests no_listeners reason' w = Some (map_size (abortControllers w), w') \<and>
         map_size (abortControllers w') = 0 \<and>
         abort_calls w' = abort_calls w @ map snd (map_entries (abortControllers w)) \<and>
         length (map snd (map_entries (abortControllers w))) = map_size (abortControllers w) \<and>
         (\<forall>h \<in> set (map snd (map_entries (abortControllers w))).
             h < length (controllers w) \<longrightarrow> aborted (controllers w' ! h))) \<and>
   (\<forall>n w'. cancelAllRequests listeners reason' w = Some (n, w') \<longrightarrow>
         n = map_size (abortControllers w) \<and> map_size (abortControllers w') = 0)"
proof -
  let ?r = "or_string reason' DEFAULT_REASON"
  let ?hs = "map snd (map_entries (abortControllers w))"
  let ?w1 = "fold (\<lambda>h. abort no_listeners h ?r) ?hs w"
  let ?w' = "?w1\<lparr>abortControllers := map_clear (abortControllers ?w1)\<rparr>"
  have run: "cancelAllRequests no_listeners reason' w = Some (map_size (abortControllers w), ?w')"
    by (simp add: cancelAllRequests_def forEach_no_listeners Let_def)
  note f = fold_abort_no_listeners[of ?r ?hs w]
  have A: "map_size (abortControllers ?w') = 0" by (simp add: map_size_def)
  have B: "abort_calls ?w' = abort_calls w @ ?hs" using f by simp
  have C: "length ?hs = map_size (abortControllers w)" by (simp add: map_size_def)
  have D: "\<forall>h \<in> set ?hs. h < length (controllers w) \<longrightarrow> aborted (controllers ?w' ! h)"
    using f by simp
  have E: "n = map_size (abortControllers w) \<and> map_size (abortControllers w') = 0"
    if "cancelAllRequests listeners reason' w = Some (n, w')" for n w'
    using that by (auto simp: cancelAllRequests_def Let_def map_size_def split: option.splits)
  from run A B C D E show ?thesis by blast
qed

theorem cancelAllRequests_without_reentry_witness:
  "map_size (abortControllers (snd (setupAbortController no_listeners example_request
       (Some (KString ''b'')) (pending_wrapper (KString ''a''))))) = 2 \<and>
   cancelAllRequests no_listeners None (snd (setupAbortController no_listeners example_request
       (Some (KString ''b'')) (pending_wrapper (KString ''a'')))) =
     Some (2, example_wrapper\<lparr>abortControllers := [None, None],
        controllers := [\<lparr>aborted = True, reason = Some DEFAULT_REASON\<rparr>,
                        \<lparr>aborted = True, reason = Some DEFAULT_REASON\<rparr>],
        abort_calls := [0, 1]\<rparr>)"
proof -
  let ?w = "snd (setupAbortController no_listeners example_request
       (Some (KString ''b'')) (pending_wrapper (KString ''a'')))"
  have w: "?w = example_wrapper\<lparr>abortControllers := [Some (KString ''a'', 0), Some (KString ''b'', 1)],
        controllers := [\<lparr>aborted = False, reason = None\<rparr>, \<lparr>aborted = False, reason = None\<rparr>]\<rparr>"
    by (simp add: pending_wrapper_eq example_request_def example_defs registry_defs Let_def)
  from cancelAllRequests_without_reentry[of None ?w no_listeners]
  obtain w' where "cancelAllRequests no_listeners None ?w = Some (map_size (abortControllers ?w), w')"
    and "\<forall>h \<in> set (map snd (map_entries (abortControllers ?w))).
             h < length (controllers ?w) \<longrightarrow> aborted (controllers w' ! h)"
    by blast
  moreover have "cancelAllRequests no_listeners None ?w =
     Some (2, example_wrapper\<lparr>abortControllers := [None, None],
        controllers := [\<lparr>aborted = True, reason = Some DEFAULT_REASON\<rparr>,
                        \<lparr>aborted = True, reason = Some DEFAULT_REASON\<rparr>],
        abort_calls := [0, 1]\<rparr>)"
    unfolding w
    by (simp add: cancelAllRequests_def Let_def forEach_done forEach_skip forEach_visit
        example_defs registry_defs)
  ultimately show ?thesis by (simp add: w map_size_def)
qed

section \<open>Interceptor Manager: the claim\<close>

lemma responseFulfilled_removes_stored_key:
  "internalRequestKey (responseConfig res) = Some k \<Longrightarrow> truthy_key k \<Longrightarrow>
   responseFulfilled hook res w = hook res (w\<lparr>abortControllers := map_delete k (abortControllers w)\<rparr>)"
  by (simp add: responseFulfilled_def)

lemma responseRejected_removes_stored_key:
  "errorConfig error = Some c \<Longrightarrow> internalRequestKey c = Some k \<Longrightarrow> truthy_key k \<Longrightarrow>
   responseRejected hook error w = hook error (w\<lparr>abortControllers := map_delete k (abortControllers w)\<rparr>)"
  by (simp add: responseRejected_def)

lemma example_run_answered:
  "request no_listeners (answering_transport 200) no_sleep ''GET'' ''/u''
     (example_config (Some key) 0) example_wrapper =
   (Inr \<lparr>status = 200, responseData = JNull,
         responseConfig = example_request\<lparr>signal := Some 0, internalRequestKey := Some key\<rparr>\<rparr>,
    [(example_request\<lparr>signal := Some 0, internalRequestKey := Some key\<rparr>,
      Resolved \<lparr>status = 200, responseData = JNull,
         responseConfig = example_request\<lparr>signal := Some 0, internalRequestKey := Some key\<rparr>\<rparr>)],
    example_wrapper\<lparr>abortControllers := (if truthy_key key then [None] else [Some (key, 0)]),
      controllers := [\<lparr>aborted = False, reason = None\<rparr>]\<rparr>)"
  apply (simp only: request_unfold)
  apply (subst retryLoop.simps)
  apply (simp add: example_request_def example_defs registry_defs Let_def
      responseFulfilled_def DEFAULT_response_def answering_transport_def)
  done

text \<open>
  Claim C7 fails on the code for the empty string, a key that \<^verbatim>\<open>requestKey ?? ...\<close> and
  the registry accept like any other: \<^verbatim>\<open>key && ...\<close> in the interceptor takes it for an
  absent key and removes nothing. A request under the key \<^verbatim>\<open>""\<close> that the server
  answers leaves its entry in the registry, where the same request under \<^verbatim>\<open>"k"\<close> leaves
  none; the interceptor of the error path leaves the entry as well.
\<close>

theorem responseFulfilled_empty_key_leak:
  "internalRequestKey (example_request\<lparr>signal := Some 0, internalRequestKey := Some (KString [])\<rparr>)
     = Some (KString []) \<and>
   map_get (abortControllers (pending_wrapper (KString []))) (KString []) = Some 0 \<and>
   map_get (abortControllers (snd (responseFulfilled DEFAULT_response
       \<lparr>status = 200, responseData = JNull,
        responseConfig = example_request\<lparr>signal := Some 0, internalRequestKey := Some (KString [])\<rparr>\<rparr>
       (pending_wrapper (KString [])))))
     (KString []) = Some 0 \<and>
   map_get (abortControllers (snd (responseRejected DEFAULT_responseError
       (networkError\<lparr>errorConfig :=
          Some (example_request\<lparr>signal := Some 0, internalRequestKey := Some (KString [])\<rparr>)\<rparr>)
       (pending_wrapper (KString [])))))
     (KString []) = Some 0 \<and>
   map_get (abortControllers (snd (snd (request no_listeners (answering_transport 200) no_sleep
       ''GET'' ''/u'' (example_config (Some (KString [])) 0) example_wrapper))))
     (KString []) = Some 0 \<and>
   map_get (abortControllers (snd (snd (request no_listeners (answering_transport 200) no_sleep
       ''GET'' ''/u'' (example_config (Some (KString ''k'')) 0) example_wrapper))))
     (KString ''k'') = None"
  by (simp add: example_run_answered pending_wrapper_eq responseFulfilled_def
      responseRejected_def DEFAULT_response_def DEFAULT_responseError_def networkError_def
      map_get_def)

section \<open>Key Generator: the claim\<close>

lemma strip_t_truthy_or_absent:
  "''_t'' \<in> fst ` set ps \<longrightarrow> truthy (prop_get ps ''_t'') \<Longrightarrow> strip_t ps = prop_delete ''_t'' ps"
proof (cases "''_t'' \<in> fst ` set ps")
  case True
  assume "''_t'' \<in> fst ` set ps \<longrightarrow> truthy (prop_get ps ''_t'')"
  with True show ?thesis by (simp add: strip_t_def)
next
  case False
  then have "filter (\<lambda>kv. fst kv \<noteq> ''_t'') ps = ps"
    by (induction ps) auto
  moreover from False have "prop_get ps ''_t'' = JUndefined"
    by (simp add: prop_get_def map_of_eq_None_iff[THEN iffD2])
  ultimately show ?thesis by (simp add: strip_t_def prop_delete_def)
qed

lemma generateRequestKey_ignores_truthy_t:
  assumes "params c1 = JObj ps1" and "params c2 = JObj ps2"
    and "prop_delete ''_t'' ps1 = prop_delete ''_t'' ps2"
    and "''_t'' \<in> fst ` set ps1 \<longrightarrow> truthy (prop_get ps1 ''_t'')"
    and "''_t'' \<in> fst ` set ps2 \<longrightarrow> truthy (prop_get ps2 ''_t'')"
    and "method c1 = method c2" and "url c1 = url c2" and "data c1 = data c2"
    and "paramsSerializer c1 = paramsSerializer c2"
  shows "generateRequestKey s c1 = generateRequestKey s c2"
  using assms
  by (simp add: generateRequestKey_def Let_def strip_t_truthy_or_absent)

text \<open>
  Claim C4 fails on the code when the value of \<^verbatim>\<open>_t\<close> is falsy: \<^verbatim>\<open>if (params?._t)\<close>
  tests the value, not the presence, so \<^verbatim>\<open>_t: 0\<close> stays in the key, and the descriptor
  differs in its key from the same descriptor with a timestamp or without \<^verbatim>\<open>_t\<close>.
\<close>

theorem generateRequestKey_falsy_t_kept:
  "generateRequestKey None (params_config (JObj [(''page'', JNum 1), (''_t'', JNum 0)]))
     = ''GET|/users|{'' @ [CHR 0x22] @ ''_t'' @ [CHR 0x22] @ '':0,'' @ [CHR 0x22] @ ''page'' @ [CHR 0x22] @ '':1}|'' \<and>
   generateRequestKey None (params_config (JObj [(''page'', JNum 1), (''_t'', JNum 1700000000000)]))
     = ''GET|/users|{'' @ [CHR 0x22] @ ''page'' @ [CHR 0x22] @ '':1}|'' \<and>
   generateRequestKey None (params_config (JObj [(''page'', JNum 1)]))
     = ''GET|/users|{'' @ [CHR 0x22] @ ''page'' @ [CHR 0x22] @ '':1}|'' \<and>
   generateRequestKey None (params_config (JObj [(''page'', JNum 1), (''_t'', JNum 0)]))
     \<noteq> generateRequestKey None (params_config (JObj [(''page'', JNum 1), (''_t'', JNum 1700000000000)]))"
  by code_simp

section \<open>Stable Serializer: the claim\<close>


declare show_nat.simps [simp del]
































end
